theory Spec2Isabelle
  imports Complex_Main "HOL-Library.Multiset"
begin

text \<open>
  A model of the class \<open>RiseGlossary\<close> of \<open>rise-glossary.js\<close>: the placement of the
  popup, the term index, the lifecycle of the popup, the matching of the terms on the
  text of a node, the scan of the document with its undoing by \<open>destroy\<close>, and the
  markup of the popup. The definitions come first, section by section in this order; the
  theorems follow in the same order.
\<close>


section \<open>Popup placement (positionPopup)\<close>

text \<open>
  Geometry is read from two bounding rectangles, the viewport size and the scroll offset.
  JavaScript numbers are modelled as reals: the code only adds, subtracts, halves and
  compares them. A coordinate that the source leaves \<open>undefined\<close> (the \<open>switch\<close> has
  no case for the configured position) is \<open>None\<close>; a comparison with \<open>undefined\<close> is
  false in JavaScript, so the boundary checks leave \<open>None\<close> alone.
\<close>

record rect =
  rect_top :: real
  rect_bottom :: real
  rect_left :: real
  rect_right :: real
  rect_width :: real
  rect_height :: real

record placement =
  p_position :: string
  p_top :: "real option"
  p_left :: "real option"

definition autoPosition :: "rect \<Rightarrow> rect \<Rightarrow> real \<Rightarrow> real \<Rightarrow> string" where
  "autoPosition triggerRect popupRect viewportWidth viewportHeight =
     (let spaceAbove = rect_top triggerRect;
          spaceBelow = viewportHeight - rect_bottom triggerRect;
          spaceLeft = rect_left triggerRect;
          spaceRight = viewportWidth - rect_right triggerRect
      in if spaceBelow \<ge> rect_height popupRect + 10 then ''bottom''
         else if spaceAbove \<ge> rect_height popupRect + 10 then ''top''
         else if spaceRight \<ge> rect_width popupRect + 10 then ''right''
         else if spaceLeft \<ge> rect_width popupRect + 10 then ''left''
         else ''bottom'')"

definition offsets :: "string \<Rightarrow> rect \<Rightarrow> rect \<Rightarrow> real \<Rightarrow> real \<Rightarrow> real option \<times> real option" where
  "offsets position triggerRect popupRect scrollX scrollY =
     (if position = ''top'' then
        (Some (rect_top triggerRect + scrollY - rect_height popupRect - 10),
         Some (rect_left triggerRect + scrollX + rect_width triggerRect / 2 - rect_width popupRect / 2))
      else if position = ''bottom'' then
        (Some (rect_bottom triggerRect + scrollY + 10),
         Some (rect_left triggerRect + scrollX + rect_width triggerRect / 2 - rect_width popupRect / 2))
      else if position = ''left'' then
        (Some (rect_top triggerRect + scrollY + rect_height triggerRect / 2 - rect_height popupRect / 2),
         Some (rect_left triggerRect + scrollX - rect_width popupRect - 10))
      else if position = ''right'' then
        (Some (rect_top triggerRect + scrollY + rect_height triggerRect / 2 - rect_height popupRect / 2),
         Some (rect_right triggerRect + scrollX + 10))
      else (None, None))"

definition clampLeft :: "rect \<Rightarrow> real \<Rightarrow> real \<Rightarrow> real" where
  "clampLeft popupRect viewportWidth l0 =
     (let l1 = (if l0 < 10 then 10 else l0)
      in if l1 + rect_width popupRect > viewportWidth - 10
         then viewportWidth - rect_width popupRect - 10 else l1)"

definition clampTop :: "rect \<Rightarrow> real \<Rightarrow> real \<Rightarrow> real \<Rightarrow> real" where
  "clampTop popupRect viewportHeight scrollY t0 =
     (let t1 = (if t0 < 10 then 10 else t0)
      in if t1 + rect_height popupRect > viewportHeight + scrollY - 10
         then viewportHeight + scrollY - rect_height popupRect - 10 else t1)"

definition positionPopup ::
  "string \<Rightarrow> rect \<Rightarrow> rect \<Rightarrow> real \<Rightarrow> real \<Rightarrow> real \<Rightarrow> real \<Rightarrow> placement" where
  "positionPopup popupPosition triggerRect popupRect viewportWidth viewportHeight scrollX scrollY =
     (let position = (if popupPosition = ''auto''
                      then autoPosition triggerRect popupRect viewportWidth viewportHeight
                      else popupPosition);
          (top0, left0) = offsets position triggerRect popupRect scrollX scrollY
      in \<lparr> p_position = position,
           p_top = map_option (clampTop popupRect viewportHeight scrollY) top0,
           p_left = map_option (clampLeft popupRect viewportWidth) left0 \<rparr>)"

text \<open>
  The preference order as the specification words it: the first side of the list
  bottom, top, right, left on which the popup plus the 10-unit margin fits, and bottom
  when it fits on none.
\<close>

definition spec_auto_side :: "rect \<Rightarrow> rect \<Rightarrow> real \<Rightarrow> real \<Rightarrow> string" where
  "spec_auto_side triggerRect popupRect viewportWidth viewportHeight =
     (case find snd
        [(''bottom'', rect_height popupRect + 10 \<le> viewportHeight - rect_bottom triggerRect),
         (''top'', rect_height popupRect + 10 \<le> rect_top triggerRect),
         (''right'', rect_width popupRect + 10 \<le> viewportWidth - rect_right triggerRect),
         (''left'', rect_width popupRect + 10 \<le> rect_left triggerRect)]
      of Some (side, _) \<Rightarrow> side | None \<Rightarrow> ''bottom'')"

text \<open>
  The claim of the specification about the boundary checks. The final coordinates are
  page coordinates (the popup is positioned absolutely); the scroll offset taken off
  gives the place in the viewport. The popup rectangle placed there lies at least 10
  units inside every viewport edge.
\<close>

definition insetOk :: "rect \<Rightarrow> real \<Rightarrow> real \<Rightarrow> real \<Rightarrow> real \<Rightarrow> placement \<Rightarrow> bool" where
  "insetOk popupRect viewportWidth viewportHeight scrollX scrollY p =
     (case (p_top p, p_left p) of
        (Some t, Some l) \<Rightarrow>
           10 \<le> l - scrollX \<and> l - scrollX + rect_width popupRect \<le> viewportWidth - 10 \<and>
           10 \<le> t - scrollY \<and> t - scrollY + rect_height popupRect \<le> viewportHeight - 10
      | _ \<Rightarrow> False)"

definition mkRect :: "real \<Rightarrow> real \<Rightarrow> real \<Rightarrow> real \<Rightarrow> rect" where
  "mkRect x y w h =
     \<lparr> rect_top = y, rect_bottom = y + h, rect_left = x, rect_right = x + w,
       rect_width = w, rect_height = h \<rparr>"

section \<open>Glossary terms and the term index (loadTerms, updateTerms)\<close>

text \<open>
  A glossary entry as the JSON data has it. Strings are sequences of code units; the
  model covers the code units below 256. Optional fields are \<open>None\<close> when absent.
  The field \<open>enabled\<close> is only ever compared with \<open>false\<close> and
  \<open>caseSensitive\<close> is only tested for truthiness, so \<open>bool option\<close> covers them.
\<close>

record gterm =
  term_id :: string
  term_word :: string
  term_definition :: string
  term_image :: "string option"
  term_link :: "string option"
  term_enabled :: "bool option"
  term_caseSensitive :: "bool option"

text \<open>The comparator passed to \<open>sort\<close>: \<open>(a, b) => b.word.length - a.word.length\<close>.\<close>

definition compareTerms :: "gterm \<Rightarrow> gterm \<Rightarrow> int" where
  "compareTerms a b = int (length (term_word b)) - int (length (term_word a))"

text \<open>
  \<open>Array.prototype.sort\<close> is a stable sort by the comparator: an element stays in front
  of the elements it does not compare greater than. It is modelled by insertion from the
  right.
\<close>

fun insertSorted :: "('a \<Rightarrow> 'a \<Rightarrow> int) \<Rightarrow> 'a \<Rightarrow> 'a list \<Rightarrow> 'a list" where
  "insertSorted cmp x [] = [x]"
| "insertSorted cmp x (y # ys) =
     (if cmp x y \<le> 0 then x # y # ys else y # insertSorted cmp x ys)"

definition sortStable :: "('a \<Rightarrow> 'a \<Rightarrow> int) \<Rightarrow> 'a list \<Rightarrow> 'a list" where
  "sortStable cmp xs = foldr (insertSorted cmp) xs []"

definition isEnabled :: "gterm \<Rightarrow> bool" where
  "isEnabled t = (term_enabled t \<noteq> Some False)"

definition indexTerms :: "gterm list \<Rightarrow> gterm list" where
  "indexTerms ts = sortStable compareTerms (filter isEnabled ts)"

text \<open>\<open>loadTerms\<close> indexes \<open>data.terms || []\<close>; \<open>updateTerms\<close> indexes its argument.\<close>

definition loadTerms :: "gterm list option \<Rightarrow> gterm list" where
  "loadTerms data_terms = indexTerms (case data_terms of None \<Rightarrow> [] | Some ts \<Rightarrow> ts)"

definition updateTerms :: "gterm list \<Rightarrow> gterm list" where
  "updateTerms newTerms = indexTerms newTerms"

definition mkTerm :: "string \<Rightarrow> string \<Rightarrow> string \<Rightarrow> gterm" where
  "mkTerm i w d =
     \<lparr> term_id = i, term_word = w, term_definition = d, term_image = None,
       term_link = None, term_enabled = None, term_caseSensitive = None \<rparr>"

section \<open>Popup lifecycle (showPopup, hidePopup)\<close>











section \<open>Term matching on the text of a node (the loop of processTextNode)\<close>

subsection \<open>The regular expression built for a term\<close>

definition backslash :: char where
  "backslash = CHR 0x5C"

text \<open>
  \<open>escapeRegExp\<close>: every character of the class \<open>[.*+?^${}()|[\]\\]\<close> gets a backslash
  in front (the replacement string is a backslash followed by the match).
\<close>

definition regexSpecial :: "char \<Rightarrow> bool" where
  "regexSpecial c = (c \<in> set ''.*+?^${}()|[]'' \<or> c = backslash)"

definition escapeRegExp :: "string \<Rightarrow> string" where
  "escapeRegExp string = concat (map (\<lambda>c. if regexSpecial c then [backslash, c] else [c]) string)"

text \<open>
  The patterns the code builds are read by \<open>new RegExp\<close>. The fragment of the pattern
  syntax modelled here: the assertion \<open>\b\<close>, a backslash before a syntax character
  (the character itself), and any character that is not a syntax character (itself).
  Everything else, and a pattern that is a syntax error, is \<open>None\<close>.
\<close>

datatype atom = Boundary | Lit char

fun compile :: "string \<Rightarrow> atom list option" where
  "compile [] = Some []"
| "compile (c # cs) =
     (if c = backslash then
        (case cs of
           [] \<Rightarrow> None
         | d # ds \<Rightarrow>
             if d = CHR ''b'' then map_option (Cons Boundary) (compile ds)
             else if regexSpecial d then map_option (Cons (Lit d)) (compile ds)
             else None)
      else if regexSpecial c then None
      else map_option (Cons (Lit c)) (compile cs))"

subsection \<open>Matching\<close>

text \<open>
  Without the \<open>u\<close> flag, \<open>\w\<close> is \<open>[A-Za-z0-9_]\<close>, and the flag \<open>i\<close> compares the
  upper-case forms of single code units; below 256 the letters with an upper-case form
  of their own are the ASCII letters and the Latin-1 letters \<open>0xE0\<close> to \<open>0xFE\<close>
  except \<open>0xF7\<close>, and the upper-case form is 32 lower, which clears bit 5.
\<close>

definition isWordChar :: "char \<Rightarrow> bool" where
  "isWordChar c =
     (let n = (of_char c :: nat)
      in (48 \<le> n \<and> n \<le> 57) \<or> (65 \<le> n \<and> n \<le> 90) \<or> n = 95 \<or> (97 \<le> n \<and> n \<le> 122))"

definition canonicalize :: "char \<Rightarrow> char" where
  "canonicalize c =
     (let n = (of_char c :: nat)
      in if (97 \<le> n \<and> n \<le> 122) \<or> (224 \<le> n \<and> n \<le> 254 \<and> n \<noteq> 247)
         then (case c of Char b0 b1 b2 b3 b4 b5 b6 b7 \<Rightarrow> Char b0 b1 b2 b3 b4 False b6 b7)
         else c)"

definition charEq :: "bool \<Rightarrow> char \<Rightarrow> char \<Rightarrow> bool" where
  "charEq ignoreCase c d = (if ignoreCase then canonicalize c = canonicalize d else c = d)"

definition wordBefore :: "char option \<Rightarrow> bool" where
  "wordBefore prev = (case prev of None \<Rightarrow> False | Some c \<Rightarrow> isWordChar c)"

definition wordAfter :: "string \<Rightarrow> bool" where
  "wordAfter rest = (case rest of [] \<Rightarrow> False | c # _ \<Rightarrow> isWordChar c)"

definition isBoundary :: "char option \<Rightarrow> string \<Rightarrow> bool" where
  "isBoundary prev rest = (wordBefore prev \<noteq> wordAfter rest)"

text \<open>
  One match attempt at a position: \<open>prev\<close> is the character in front of the position,
  \<open>rest\<close> the text from the position on. The result is the length of the match.
\<close>

fun matchAtoms :: "bool \<Rightarrow> atom list \<Rightarrow> char option \<Rightarrow> string \<Rightarrow> nat option" where
  "matchAtoms ignoreCase [] prev rest = Some 0"
| "matchAtoms ignoreCase (Boundary # as) prev rest =
     (if isBoundary prev rest then matchAtoms ignoreCase as prev rest else None)"
| "matchAtoms ignoreCase (Lit c # as) prev [] = None"
| "matchAtoms ignoreCase (Lit c # as) prev (d # ds) =
     (if charEq ignoreCase c d then map_option Suc (matchAtoms ignoreCase as (Some d) ds)
      else None)"

text \<open>
  \<open>String.prototype.replace\<close> with a global regular expression: match attempts run from
  index 0 upwards; after a match of length \<open>n > 0\<close> the next attempt is \<open>n\<close> characters
  on, after an empty match one character on; the last attempt is at the end of the text.
  \<open>pieces\<close> cuts the text into the matches and the characters outside them; \<open>skip\<close>
  counts the characters still inside the previous match.
\<close>

datatype piece = Unmatched char | Matched string

fun pieces :: "bool \<Rightarrow> atom list \<Rightarrow> nat \<Rightarrow> char option \<Rightarrow> string \<Rightarrow> piece list" where
  "pieces ignoreCase as skip prev [] =
     (if skip = 0 \<and> matchAtoms ignoreCase as prev [] \<noteq> None then [Matched []] else [])"
| "pieces ignoreCase as skip prev (c # cs) =
     (if skip > 0 then pieces ignoreCase as (skip - 1) (Some c) cs
      else (case matchAtoms ignoreCase as prev (c # cs) of
              None \<Rightarrow> Unmatched c # pieces ignoreCase as 0 (Some c) cs
            | Some n \<Rightarrow>
                if n = 0 then Matched [] # Unmatched c # pieces ignoreCase as 0 (Some c) cs
                else Matched (take n (c # cs)) # pieces ignoreCase as (n - 1) (Some c) cs))"

definition isMatched :: "piece \<Rightarrow> bool" where
  "isMatched p = (case p of Matched _ \<Rightarrow> True | Unmatched _ \<Rightarrow> False)"

definition renderPiece :: "(string \<Rightarrow> string) \<Rightarrow> piece \<Rightarrow> string" where
  "renderPiece replacer p = (case p of Unmatched c \<Rightarrow> [c] | Matched m \<Rightarrow> replacer m)"

text \<open>\<open>regex.test(content)\<close> on the fresh regular expression, and \<open>content.replace\<close>.\<close>

definition regexTest :: "bool \<Rightarrow> atom list \<Rightarrow> string \<Rightarrow> bool" where
  "regexTest ignoreCase as content = list_ex isMatched (pieces ignoreCase as 0 None content)"

definition regexReplace :: "bool \<Rightarrow> atom list \<Rightarrow> (string \<Rightarrow> string) \<Rightarrow> string \<Rightarrow> string" where
  "regexReplace ignoreCase as replacer content =
     concat (map (renderPiece replacer) (pieces ignoreCase as 0 None content))"

subsection \<open>The loop over the terms\<close>

definition termPattern :: "gterm \<Rightarrow> string" where
  "termPattern t = [backslash, CHR ''b''] @ escapeRegExp (term_word t) @ [backslash, CHR ''b'']"

text \<open>\<open>term.caseSensitive ? 'g' : 'gi'\<close>: the flag \<open>i\<close> is set unless the field is true.\<close>

definition ignoreCaseFlag :: "gterm \<Rightarrow> bool" where
  "ignoreCaseFlag t = (term_caseSensitive t \<noteq> Some True)"

definition placeholder :: "gterm \<Rightarrow> string \<Rightarrow> string" where
  \<open>placeholder t m =
     ''<span class="glossary-term-placeholder" data-term-id="'' @ term_id t @ ''">'' @ m @ ''</span>''\<close>

text \<open>
  One round of the loop, on the pair \<open>(hasMatches, content)\<close>. \<open>None\<close> stands for a
  pattern outside the modelled syntax (\<open>new RegExp\<close> would throw or mean something else).
\<close>

definition applyTerm :: "gterm \<Rightarrow> bool \<times> string \<Rightarrow> (bool \<times> string) option" where
  "applyTerm t hc =
     (case compile (termPattern t) of
        None \<Rightarrow> None
      | Some as \<Rightarrow>
          if regexTest (ignoreCaseFlag t) as (snd hc)
          then Some (True, regexReplace (ignoreCaseFlag t) as (placeholder t) (snd hc))
          else Some hc)"

fun substituteTerms :: "gterm list \<Rightarrow> bool \<times> string \<Rightarrow> (bool \<times> string) option" where
  "substituteTerms [] hc = Some hc"
| "substituteTerms (t # ts) hc =
     (case applyTerm t hc of None \<Rightarrow> None | Some hc' \<Rightarrow> substituteTerms ts hc')"

text \<open>
  Whether the text has a word boundary at index \<open>i\<close> (between the characters \<open>i - 1\<close>
  and \<open>i\<close>, the ends of the text counting as non-word characters).
\<close>

definition boundaryAt :: "string \<Rightarrow> nat \<Rightarrow> bool" where
  "boundaryAt content i =
     isBoundary (if i = 0 then None else Some (content ! (i - 1))) (drop i content)"

section \<open>The document\<close>

subsection \<open>Nodes, attributes, selectors\<close>

text \<open>
  A node is a text node or an element. Text nodes carry an identity (a number), because
  the set \<open>processedNodes\<close> holds text nodes by identity. An element has a tag name,
  its attributes in order, and its children.
\<close>

type_synonym attrs = "(string \<times> string) list"

datatype node = Text nat string | Elem string attrs "node list"

fun getAttribute :: "string \<Rightarrow> attrs \<Rightarrow> string option" where
  "getAttribute name [] = None"
| "getAttribute name ((k, v) # as) = (if k = name then Some v else getAttribute name as)"

fun setAttribute :: "string \<Rightarrow> string \<Rightarrow> attrs \<Rightarrow> attrs" where
  "setAttribute name val [] = [(name, val)]"
| "setAttribute name val ((k, v) # as) =
     (if k = name then (k, val) # as else (k, v) # setAttribute name val as)"

definition isHtmlSpace :: "char \<Rightarrow> bool" where
  "isHtmlSpace c = ((of_char c :: nat) \<in> {9, 10, 12, 13, 32})"

fun splitTokens :: "string \<Rightarrow> string \<Rightarrow> string list" where
  "splitTokens cur [] = (if cur = [] then [] else [cur])"
| "splitTokens cur (c # cs) =
     (if isHtmlSpace c then (if cur = [] then [] else [cur]) @ splitTokens [] cs
      else splitTokens (cur @ [c]) cs)"

definition classList :: "attrs \<Rightarrow> string list" where
  "classList as = (case getAttribute ''class'' as of None \<Rightarrow> [] | Some v \<Rightarrow> splitTokens [] v)"

definition hasClass :: "string \<Rightarrow> attrs \<Rightarrow> bool" where
  "hasClass cls as = (cls \<in> set (classList as))"

text \<open>
  The selectors of \<open>excludeSelectors\<close> that the model covers: a type selector (\<open>script\<close>),
  a class selector (\<open>.glossary-term\<close>), an attribute-presence selector
  (\<open>[data-glossary-processed]\<close>), and a string that is not a selector, on which
  \<open>matches\<close> throws.
\<close>

datatype selector = SelTag string | SelClass string | SelAttr string | SelInvalid string

definition isAsciiAlpha :: "char \<Rightarrow> bool" where
  "isAsciiAlpha c =
     (let n = (of_char c :: nat) in (65 \<le> n \<and> n \<le> 90) \<or> (97 \<le> n \<and> n \<le> 122))"

definition asciiLower :: "char \<Rightarrow> char" where
  "asciiLower c =
     (let n = (of_char c :: nat)
      in if 65 \<le> n \<and> n \<le> 90
         then (case c of Char b0 b1 b2 b3 b4 b5 b6 b7 \<Rightarrow> Char b0 b1 b2 b3 b4 True b6 b7)
         else c)"

text \<open>
  \<open>element.matches(selector)\<close>; \<open>None\<close> is the exception. The tag of an element is
  its local name, which is in lower case for an HTML element; a type selector is put in
  lower case before it is compared with it.
\<close>

fun matches :: "selector \<Rightarrow> string \<times> attrs \<Rightarrow> bool option" where
  "matches (SelTag t) (tag, as) = Some (tag = map asciiLower t)"
| "matches (SelClass c) (tag, as) = Some (hasClass c as)"
| "matches (SelAttr a) (tag, as) = Some (getAttribute a as \<noteq> None)"
| "matches (SelInvalid s) (tag, as) = None"

text \<open>
  \<open>shouldExcludeElement\<close>. The element is given by its chain: itself first, then its
  ancestors. \<open>element.matches(selector) || element.closest(selector)\<close> holds when some
  element of the chain matches; an exception is caught and counts as false. An empty
  chain is the null element.
\<close>

definition selectorHits :: "selector \<Rightarrow> (string \<times> attrs) list \<Rightarrow> bool" where
  "selectorHits sel chain = list_ex (\<lambda>e. matches sel e = Some True) chain"

definition shouldExcludeElement :: "selector list \<Rightarrow> (string \<times> attrs) list \<Rightarrow> bool" where
  "shouldExcludeElement excludeSelectors chain =
     (if chain = [] then True else list_ex (\<lambda>sel. selectorHits sel chain) excludeSelectors)"

fun textContent :: "node \<Rightarrow> string" where
  "textContent (Text i s) = s"
| "textContent (Elem tag as kids) = concat (map textContent kids)"

text \<open>\<open>String.prototype.trim\<close>: the white space and line terminators below 256.\<close>

definition isJsSpace :: "char \<Rightarrow> bool" where
  "isJsSpace c = ((of_char c :: nat) \<in> {9, 10, 11, 12, 13, 32, 160})"

definition trim :: "string \<Rightarrow> string" where
  "trim s = rev (dropWhile isJsSpace (rev (dropWhile isJsSpace s)))"

subsection \<open>Parsing the substituted text (\<open>tempDiv.innerHTML = content\<close>)\<close>

text \<open>
  The HTML fragment parser is the browser's. The model follows the tokenizer states and
  the tree construction of the HTML standard on the fragment of the language that the
  placeholders are written in: text, \<open>span\<close> start tags whose attributes have the
  form \<open>name="value"\<close> or \<open>name\<close>, and \<open>span\<close> end tags. On everything else (another
  tag name, a character reference, a comment, a self-closing tag, an attribute value that
  is not in double quotes, a NUL or a carriage return, the end of the text inside a tag)
  the result is \<open>None\<close>: the input is outside the model.
\<close>

datatype token = TChar char | TStart attrs | TEnd

datatype tstate =
    Data
  | TagOpen
  | EndTagOpen
  | TagName bool string
  | BeforeAttrName attrs
  | AttrName attrs string
  | AfterAttrName attrs string
  | BeforeAttrValue attrs string
  | AttrValue attrs string string

definition unmodelledChar :: "char \<Rightarrow> bool" where
  "unmodelledChar c = ((of_char c :: nat) \<in> {0, 13} \<or> c = CHR ''&'')"

definition addAttr :: "attrs \<Rightarrow> string \<Rightarrow> string \<Rightarrow> attrs" where
  "addAttr as name val = (if getAttribute name as = None then as @ [(name, val)] else as)"

fun tokenize :: "tstate \<Rightarrow> string \<Rightarrow> token list option" where
  "tokenize st [] =
     (case st of Data \<Rightarrow> Some [] | TagOpen \<Rightarrow> Some [TChar CHR ''<''] | _ \<Rightarrow> None)"
| "tokenize st (c # cs) =
     (case st of
        Data \<Rightarrow>
          if c = CHR ''<'' then tokenize TagOpen cs
          else if unmodelledChar c then None
          else map_option (Cons (TChar c)) (tokenize Data cs)
      | TagOpen \<Rightarrow>
          if c = CHR ''/'' then tokenize EndTagOpen cs
          else if isAsciiAlpha c then tokenize (TagName False [asciiLower c]) cs
          else if c = CHR ''!'' \<or> c = CHR ''?'' then None
          else if c = CHR ''<'' then map_option (Cons (TChar CHR ''<'')) (tokenize TagOpen cs)
          else if unmodelledChar c then None
          else map_option (\<lambda>ts. TChar CHR ''<'' # TChar c # ts) (tokenize Data cs)
      | EndTagOpen \<Rightarrow>
          if isAsciiAlpha c then tokenize (TagName True [asciiLower c]) cs else None
      | TagName isEnd name \<Rightarrow>
          if c = CHR ''>'' then
            (if name = ''span''
             then map_option (Cons (if isEnd then TEnd else TStart [])) (tokenize Data cs)
             else None)
          else if isHtmlSpace c then
            (if name = ''span'' \<and> \<not> isEnd \<and> \<not> unmodelledChar c
             then tokenize (BeforeAttrName []) cs else None)
          else if c = CHR ''/'' \<or> unmodelledChar c then None
          else tokenize (TagName isEnd (name @ [asciiLower c])) cs
      | BeforeAttrName as \<Rightarrow>
          if c = CHR ''>'' then map_option (Cons (TStart as)) (tokenize Data cs)
          else if isHtmlSpace c then
            (if unmodelledChar c then None else tokenize (BeforeAttrName as) cs)
          else if c = CHR ''/'' \<or> c = CHR ''='' \<or> unmodelledChar c then None
          else tokenize (AttrName as [asciiLower c]) cs
      | AttrName as name \<Rightarrow>
          if c = CHR ''='' then tokenize (BeforeAttrValue as name) cs
          else if c = CHR ''>'' then
            map_option (Cons (TStart (addAttr as name []))) (tokenize Data cs)
          else if isHtmlSpace c then
            (if unmodelledChar c then None else tokenize (AfterAttrName as name) cs)
          else if c = CHR ''/'' \<or> unmodelledChar c then None
          else tokenize (AttrName as (name @ [asciiLower c])) cs
      | AfterAttrName as name \<Rightarrow>
          if c = CHR ''='' then tokenize (BeforeAttrValue as name) cs
          else if c = CHR ''>'' then
            map_option (Cons (TStart (addAttr as name []))) (tokenize Data cs)
          else if isHtmlSpace c then
            (if unmodelledChar c then None else tokenize (AfterAttrName as name) cs)
          else if c = CHR ''/'' \<or> unmodelledChar c then None
          else tokenize (AttrName (addAttr as name []) [asciiLower c]) cs
      | BeforeAttrValue as name \<Rightarrow>
          if c = CHR 0x22 then tokenize (AttrValue as name []) cs
          else if isHtmlSpace c \<and> \<not> unmodelledChar c then tokenize (BeforeAttrValue as name) cs
          else None
      | AttrValue as name val \<Rightarrow>
          if c = CHR 0x22 then tokenize (BeforeAttrName (addAttr as name val)) cs
          else if unmodelledChar c then None
          else tokenize (AttrValue as name (val @ [c])) cs)"

text \<open>
  Tree construction, insertion mode "in body" under the context element. The stack holds
  the open \<open>span\<close> elements, innermost first, each with the children it has so far;
  \<open>out\<close> holds the children of the context element. Characters join the text node in
  front of them. A \<open>span\<close> end tag closes the innermost open \<open>span\<close> and is ignored
  when none is open; the end of the input closes them all. The text nodes get the
  identity 0 here and their real identity when the fragment is moved into the document.
\<close>

fun appendChar :: "char \<Rightarrow> node list \<Rightarrow> node list" where
  "appendChar c [] = [Text 0 [c]]"
| "appendChar c [Text i s] = [Text i (s @ [c])]"
| "appendChar c [Elem tag as kids] = [Elem tag as kids, Text 0 [c]]"
| "appendChar c (n # m # ns) = n # appendChar c (m # ns)"

fun closeSpan :: "(attrs \<times> node list) list \<Rightarrow> node list \<Rightarrow> (attrs \<times> node list) list \<times> node list" where
  "closeSpan [] out = ([], out)"
| "closeSpan [(as, kids)] out = ([], out @ [Elem ''span'' as kids])"
| "closeSpan ((as, kids) # (as', kids') # stack) out =
     ((as', kids' @ [Elem ''span'' as kids]) # stack, out)"

fun closeAll :: "(attrs \<times> node list) list \<Rightarrow> node list \<Rightarrow> node list" where
  "closeAll [] out = out"
| "closeAll [(as, kids)] out = out @ [Elem ''span'' as kids]"
| "closeAll ((as, kids) # (as', kids') # stack) out =
     closeAll ((as', kids' @ [Elem ''span'' as kids]) # stack) out"

fun buildTree :: "(attrs \<times> node list) list \<Rightarrow> node list \<Rightarrow> token list \<Rightarrow> node list" where
  "buildTree stack out [] = closeAll stack out"
| "buildTree stack out (TChar c # ts) =
     (case stack of
        [] \<Rightarrow> buildTree [] (appendChar c out) ts
      | (as, kids) # rest \<Rightarrow> buildTree ((as, appendChar c kids) # rest) out ts)"
| "buildTree stack out (TStart as # ts) = buildTree ((as, []) # stack) out ts"
| "buildTree stack out (TEnd # ts) =
     (case closeSpan stack out of (stack', out') \<Rightarrow> buildTree stack' out' ts)"

definition parseFragment :: "string \<Rightarrow> node list option" where
  "parseFragment markup = map_option (buildTree [] []) (tokenize Data markup)"

section \<open>Scanning the document (processExistingContent, processTextNode) and destroy\<close>

subsection \<open>Options and state\<close>

text \<open>
  The options read by the modelled functions. In the constructor each option has a
  default, and the spread \<open>...options\<close> at the end puts the caller's value back in place
  for every key the caller gave; so an option is the caller's value when the key is given
  and the default otherwise.
\<close>

record userOptions =
  u_popupPosition :: "string option"
  u_animationDuration :: "nat option"
  u_caseSensitive :: "bool option"
  u_excludeSelectors :: "selector list option"

record options =
  opt_popupPosition :: string
  opt_animationDuration :: nat
  opt_caseSensitive :: bool
  opt_excludeSelectors :: "selector list"

definition defaultExcludeSelectors :: "selector list" where
  "defaultExcludeSelectors =
     [SelTag ''script'', SelTag ''style'', SelTag ''code'', SelTag ''pre'',
      SelClass ''glossary-term'', SelClass ''glossary-popup'',
      SelAttr ''data-glossary-processed'']"

definition newOptions :: "userOptions \<Rightarrow> options" where
  "newOptions u =
     \<lparr> opt_popupPosition = (case u_popupPosition u of None \<Rightarrow> ''auto'' | Some v \<Rightarrow> v),
       opt_animationDuration = (case u_animationDuration u of None \<Rightarrow> 300 | Some v \<Rightarrow> v),
       opt_caseSensitive = (case u_caseSensitive u of None \<Rightarrow> False | Some v \<Rightarrow> v),
       opt_excludeSelectors =
         (case u_excludeSelectors u of None \<Rightarrow> defaultExcludeSelectors | Some v \<Rightarrow> v) \<rparr>"

definition noOptions :: userOptions where
  "noOptions =
     \<lparr> u_popupPosition = None, u_animationDuration = None, u_caseSensitive = None,
       u_excludeSelectors = None \<rparr>"

text \<open>
  The instance (\<open>this\<close>) together with the document: the options, the term index, the set
  of processed text nodes, the elements above \<open>document.body\<close> (nearest first), the body,
  and the next unused node identity.
\<close>

record state =
  this_options :: options
  this_terms :: "gterm list"
  this_processedNodes :: "nat set"
  doc_above :: "(string \<times> attrs) list"
  doc_body :: node
  doc_nextId :: nat

subsection \<open>The tree walker\<close>

text \<open>The filter \<open>acceptNode\<close> of the walker, on a text node with its parent's chain.\<close>

definition acceptNode :: "state \<Rightarrow> (string \<times> attrs) list \<Rightarrow> nat \<Rightarrow> string \<Rightarrow> bool" where
  "acceptNode st chain i s =
     (if i \<in> this_processedNodes st then False
      else if shouldExcludeElement (opt_excludeSelectors (this_options st)) chain then False
      else if trim s = [] \<or> length (trim s) < 2 then False
      else True)"

text \<open>
  The walk shows text nodes only (\<open>NodeFilter.SHOW_TEXT\<close>): elements are passed through
  and their children visited, in document order.
\<close>

fun walk :: "((string \<times> attrs) list \<Rightarrow> nat \<Rightarrow> string \<Rightarrow> bool) \<Rightarrow> (string \<times> attrs) list \<Rightarrow> node \<Rightarrow> nat list" where
  "walk accept chain (Text i s) = (if accept chain i s then [i] else [])"
| "walk accept chain (Elem tag as kids) = concat (map (walk accept ((tag, as) # chain)) kids)"

definition textNodes :: "state \<Rightarrow> nat list" where
  "textNodes st =
     (case doc_body st of
        Text i s \<Rightarrow> []
      | Elem tag as kids \<Rightarrow> walk (acceptNode st) (doc_above st) (doc_body st))"

subsection \<open>processTextNode\<close>

fun findText :: "nat \<Rightarrow> node \<Rightarrow> string option"
  and findTextIn :: "nat \<Rightarrow> node list \<Rightarrow> string option" where
  "findText tid (Text i s) = (if i = tid then Some s else None)"
| "findText tid (Elem tag as kids) = findTextIn tid kids"
| "findTextIn tid [] = None"
| "findTextIn tid (k # ks) =
     (case findText tid k of None \<Rightarrow> findTextIn tid ks | Some s \<Rightarrow> Some s)"

definition isTextWithId :: "nat \<Rightarrow> node \<Rightarrow> bool" where
  "isTextWithId tid n = (case n of Text i s \<Rightarrow> i = tid | Elem tag as kids \<Rightarrow> False)"

definition createGlossaryElement :: "gterm \<Rightarrow> string \<Rightarrow> node" where
  "createGlossaryElement t matchedText =
     Elem ''span''
       [(''class'', ''glossary-term''), (''tabindex'', ''0''), (''role'', ''button''),
        (''aria-describedby'', ''glossary-popup-'' @ term_id t),
        (''aria-label'', matchedText @ '': '' @ term_definition t),
        (''data-term-id'', term_id t)]
       (if matchedText = [] then [] else [Text 0 matchedText])"

text \<open>
  The loop over \<open>querySelectorAll('.glossary-term-placeholder')\<close>: a placeholder whose
  term is found is replaced by the marker; the placeholders inside it leave the fragment
  with it. A placeholder whose term is not found stays, and the loop goes on inside it.
\<close>

fun resolvePlaceholders :: "gterm list \<Rightarrow> node \<Rightarrow> node" where
  "resolvePlaceholders ts (Text i s) = Text i s"
| "resolvePlaceholders ts (Elem tag as kids) =
     (case (if hasClass ''glossary-term-placeholder'' as
            then find (\<lambda>t. Some (term_id t) = getAttribute ''data-term-id'' as) ts
            else None) of
        Some t \<Rightarrow> createGlossaryElement t (concat (map textContent kids))
      | None \<Rightarrow> Elem tag as (map (resolvePlaceholders ts) kids))"

text \<open>The text nodes of the fragment get their identities, in document order.\<close>

fun adopt :: "nat \<Rightarrow> node \<Rightarrow> node \<times> nat"
  and adoptAll :: "nat \<Rightarrow> node list \<Rightarrow> node list \<times> nat" where
  "adopt n (Text i s) = (Text n s, Suc n)"
| "adopt n (Elem tag as kids) = (case adoptAll n kids of (kids', n') \<Rightarrow> (Elem tag as kids', n'))"
| "adoptAll n [] = ([], n)"
| "adoptAll n (k # ks) =
     (case adopt n k of (k', n') \<Rightarrow> (case adoptAll n' ks of (ks', n'') \<Rightarrow> (k' # ks', n'')))"

text \<open>
  \<open>parent.replaceChild(fragment, textNode)\<close> followed by
  \<open>parent.setAttribute('data-glossary-processed', 'true')\<close>, where the parent is the
  element that has the text node as a child.
\<close>

fun replaceChild :: "nat \<Rightarrow> node list \<Rightarrow> node \<Rightarrow> node" where
  "replaceChild tid frag (Text i s) = Text i s"
| "replaceChild tid frag (Elem tag as kids) =
     (if list_ex (isTextWithId tid) kids
      then Elem tag (setAttribute ''data-glossary-processed'' ''true'' as)
             (concat (map (\<lambda>k. if isTextWithId tid k then frag else [k]) kids))
      else Elem tag as (map (replaceChild tid frag) kids))"

text \<open>
  \<open>processTextNode\<close>. \<open>None\<close> is a step outside the model: the text node is not in the
  document, or the substituted text is outside the modelled fragment of HTML.
\<close>

definition processTextNode :: "state \<Rightarrow> nat \<Rightarrow> state option" where
  "processTextNode st tid =
     (if tid \<in> this_processedNodes st then Some st
      else
        (case findText tid (doc_body st) of
           None \<Rightarrow> None
         | Some textContent0 \<Rightarrow>
             (case substituteTerms (this_terms st) (False, textContent0) of
                None \<Rightarrow> None
              | Some (hasMatches, content) \<Rightarrow>
                  if hasMatches then
                    (case parseFragment content of
                       None \<Rightarrow> None
                     | Some parsed \<Rightarrow>
                         (case adoptAll (doc_nextId st)
                                 (map (resolvePlaceholders (this_terms st)) parsed) of
                            (frag, n) \<Rightarrow>
                              Some (st\<lparr> doc_body := replaceChild tid frag (doc_body st),
                                        doc_nextId := n,
                                        this_processedNodes := insert tid (this_processedNodes st) \<rparr>)))
                  else Some (st\<lparr> this_processedNodes := insert tid (this_processedNodes st) \<rparr>))))"

fun processAll :: "state \<Rightarrow> nat list \<Rightarrow> state option" where
  "processAll st [] = Some st"
| "processAll st (tid # tids) =
     (case processTextNode st tid of None \<Rightarrow> None | Some st' \<Rightarrow> processAll st' tids)"

definition processExistingContent :: "state \<Rightarrow> state option" where
  "processExistingContent st = processAll st (textNodes st)"

subsection \<open>destroy\<close>

text \<open>
  \<open>Node.normalize\<close> on an element: in its whole subtree the empty text nodes go and
  adjacent text nodes are merged into the first of them.
\<close>

fun mergeText :: "node list \<Rightarrow> node list" where
  "mergeText [] = []"
| "mergeText (Elem tag as kids # ns) = Elem tag as kids # mergeText ns"
| "mergeText (Text i s # ns) =
     (if s = [] then mergeText ns
      else (case mergeText ns of
              Text j s' # ms \<Rightarrow> Text i (s @ s') # ms
            | ms \<Rightarrow> Text i s # ms))"

fun normalize :: "node \<Rightarrow> node" where
  "normalize (Text i s) = Text i s"
| "normalize (Elem tag as kids) = Elem tag as (mergeText (map normalize kids))"

definition isMarker :: "node \<Rightarrow> bool" where
  "isMarker n = (case n of Text i s \<Rightarrow> False | Elem tag as kids \<Rightarrow> hasClass ''glossary-term'' as)"

text \<open>
  The loop of \<open>destroy\<close> over \<open>querySelectorAll('.glossary-term')\<close>: each marker is
  replaced by a new text node with the marker's text content, and its parent is
  normalized. (The popup and the style sheet, which \<open>destroy\<close> also removes, are not part
  of this state.)
\<close>

fun unwrap :: "nat \<Rightarrow> node \<Rightarrow> node \<times> nat"
  and unwrapAll :: "nat \<Rightarrow> node list \<Rightarrow> node list \<times> nat" where
  "unwrap n (Text i s) = (Text i s, n)"
| "unwrap n (Elem tag as kids) =
     (if hasClass ''glossary-term'' as then (Text n (concat (map textContent kids)), Suc n)
      else (case unwrapAll n kids of
              (kids', n') \<Rightarrow>
                (if list_ex isMarker kids then normalize (Elem tag as kids') else Elem tag as kids',
                 n')))"
| "unwrapAll n [] = ([], n)"
| "unwrapAll n (k # ks) =
     (case unwrap n k of (k', n') \<Rightarrow> (case unwrapAll n' ks of (ks', n'') \<Rightarrow> (k' # ks', n'')))"

definition destroy :: "state \<Rightarrow> state" where
  "destroy st =
     (case unwrap (doc_nextId st) (doc_body st) of
        (b, n) \<Rightarrow> st\<lparr> doc_body := b, doc_nextId := n \<rparr>)"

fun countMarkers :: "node \<Rightarrow> nat" where
  "countMarkers (Text i s) = 0"
| "countMarkers (Elem tag as kids) =
     (if hasClass ''glossary-term'' as then 1 else 0) + sum_list (map countMarkers kids)"

definition newState :: "userOptions \<Rightarrow> gterm list \<Rightarrow> node \<Rightarrow> nat \<Rightarrow> state" where
  "newState u data_terms b n =
     \<lparr> this_options = newOptions u, this_terms = loadTerms (Some data_terms),
       this_processedNodes = {}, doc_above = [(''html'', [])], doc_body = b, doc_nextId = n \<rparr>"

text \<open>
  The part of the filter that does not depend on \<open>processedNodes\<close>: the parent is not
  excluded and the trimmed text has at least two characters.
\<close>

definition candidate :: "selector list \<Rightarrow> (string \<times> attrs) list \<Rightarrow> nat \<Rightarrow> string \<Rightarrow> bool" where
  "candidate sels chain i s =
     (\<not> shouldExcludeElement sels chain \<and> \<not> (trim s = [] \<or> length (trim s) < 2))"

text \<open>Some element of the chain matches some selector of the list.\<close>

definition hit :: "selector list \<Rightarrow> (string \<times> attrs) list \<Rightarrow> bool" where
  "hit sels chain = list_ex (\<lambda>sel. selectorHits sel chain) sels"

section \<open>The markup of a popup (createPopup, escapeHtml)\<close>

text \<open>
  \<open>escapeHtml\<close> sets the text as the \<open>textContent\<close> of a fresh \<open>div\<close> and reads its
  \<open>innerHTML\<close>: the serialization of a text node, which replaces the ampersand, the
  no-break space and the two angle brackets, and nothing else.
\<close>

definition escapeHtml :: "string \<Rightarrow> string" where
  "escapeHtml text =
     concat (map (\<lambda>c. if c = CHR ''&'' then ''&amp;''
                       else if c = CHR 0xA0 then ''&nbsp;''
                       else if c = CHR ''<'' then ''&lt;''
                       else if c = CHR ''>'' then ''&gt;''
                       else [c]) text)"

definition newline :: string where
  "newline = [CHR 0x0A]"

definition indent :: "nat \<Rightarrow> string" where
  "indent n = replicate n CHR '' ''"

text \<open>
  The arrow of the link is the character U+2197, above the code units of the model; it
  is written here as its character reference, which the parser reads as that character.
\<close>

definition arrowGlyph :: string where
  "arrowGlyph = ''&#8599;''"

definition popupHead :: "gterm \<Rightarrow> string" where
  \<open>popupHead t =
     newline @ indent 12 @
     ''<button class="glossary-popup-close" aria-label="Close definition" title="Close">'' @
       [CHR 0xD7] @ ''</button>'' @
     newline @ indent 12 @
     ''<div class="glossary-popup-word">'' @ escapeHtml (term_word t) @ ''</div>'' @
     newline @ indent 12 @
     ''<div class="glossary-popup-definition">'' @ escapeHtml (term_definition t) @ ''</div>'' @
     newline @ indent 8\<close>

text \<open>
  \<open>if (term.image)\<close> and \<open>if (term.link)\<close>: the field is used when it is present and
  not the empty string.
\<close>

definition popupImage :: "gterm \<Rightarrow> string" where
  \<open>popupImage t =
     (case term_image t of
        None \<Rightarrow> []
      | Some src \<Rightarrow>
          if src = [] then []
          else ''<img src="'' @ escapeHtml src @ ''" alt="'' @ escapeHtml (term_word t) @
               ''" class="glossary-popup-image" loading="lazy">'')\<close>

definition popupLink :: "gterm \<Rightarrow> string" where
  \<open>popupLink t =
     (case term_link t of
        None \<Rightarrow> []
      | Some href \<Rightarrow>
          if href = [] then []
          else newline @ indent 16 @
               ''<a href="'' @ escapeHtml href @
               ''" target="_blank" rel="noopener noreferrer" class="glossary-popup-link">'' @
               newline @ indent 20 @ ''Learn more'' @
               newline @ indent 20 @ ''<span aria-hidden="true">'' @ arrowGlyph @ ''</span>'' @
               newline @ indent 20 @ ''<span class="sr-only">(opens in new window)</span>'' @
               newline @ indent 16 @ ''</a>'' @
               newline @ indent 12)\<close>

text \<open>
  \<open>createPopup\<close>: the attributes of the new \<open>div\<close> and the string assigned to its
  \<open>innerHTML\<close>.
\<close>

definition createPopup :: "gterm \<Rightarrow> attrs \<times> string" where
  "createPopup t =
     ([(''class'', ''glossary-popup''), (''id'', ''glossary-popup-'' @ term_id t),
       (''role'', ''tooltip''), (''aria-live'', ''polite'')],
      popupHead t @ popupImage t @ popupLink t)"

section \<open>Theorems: popup placement\<close>

text \<open>
  C8. In auto mode the side chosen by positionPopup is the first of bottom, top, right,
  left on which the popup plus a 10-unit margin fits, and bottom when none fits; this
  holds for every trigger rectangle, popup rectangle, viewport size and scroll offset.
\<close>

theorem positionPopup_auto_preference:
  "p_position (positionPopup ''auto'' triggerRect popupRect viewportWidth viewportHeight scrollX scrollY)
     = spec_auto_side triggerRect popupRect viewportWidth viewportHeight"
  by (simp add: positionPopup_def autoPosition_def spec_auto_side_def Let_def split: prod.splits)

text \<open>
  C9 fails on the code. The checks on the left, the right and the top compare page
  coordinates with bounds that leave the scroll offset out; only the check on the bottom
  adds \<open>scrollY\<close>. The page is scrolled down by 1000, the viewport is 800 by 100, the
  trigger is at (300, 60) in the viewport and 40 by 20, and the popup is 200 by 50, so it
  fits between the insets. Auto mode places it above the trigger, at the page coordinate
  1000: its top edge is on the top edge of the viewport, 0 units inside.
\<close>

theorem positionPopup_scrolled_breaks_inset:
  "rect_width (mkRect 0 0 200 50) + 20 \<le> (800::real)
   \<and> rect_height (mkRect 0 0 200 50) + 20 \<le> (100::real)
   \<and> positionPopup ''auto'' (mkRect 300 60 40 20) (mkRect 0 0 200 50) 800 100 0 1000
       = \<lparr> p_position = ''top'', p_top = Some 1000, p_left = Some 220 \<rparr>
   \<and> \<not> insetOk (mkRect 0 0 200 50) 800 100 0 1000
         (positionPopup ''auto'' (mkRect 300 60 40 20) (mkRect 0 0 200 50) 800 100 0 1000)"
  by (simp add: insetOk_def positionPopup_def autoPosition_def offsets_def clampLeft_def
      clampTop_def mkRect_def Let_def)

text \<open>
  The check on the bottom is the one that takes the scroll offset into account: whatever
  the input, the bottom edge of the popup ends at least 10 units above the bottom edge of
  the viewport.
\<close>

lemma clampTop_bottom_edge:
  "clampTop popupRect viewportHeight scrollY t0 - scrollY + rect_height popupRect
     \<le> viewportHeight - 10"
  by (simp add: clampTop_def Let_def)

text \<open>
  A popup larger than the viewport minus both insets is not kept inside either: the
  second horizontal check pushes it past the left edge. Here the viewport is 100 by 100,
  the page is not scrolled, and the popup is 200 wide; the final left coordinate is -110.
\<close>

lemma positionPopup_oversize_example:
  "\<not> insetOk (mkRect 0 0 200 50) 100 100 0 0
       (positionPopup ''auto'' (mkRect 0 0 10 10) (mkRect 0 0 200 50) 100 100 0 0)"
  by (simp add: insetOk_def positionPopup_def autoPosition_def offsets_def clampLeft_def
      clampTop_def mkRect_def Let_def)

text \<open>
  What the four checks do achieve: on a page that is not scrolled, for each of the five
  recognised modes and a popup that fits between the insets, the popup ends at least 10
  units inside every viewport edge.
\<close>

lemma positionPopup_unscrolled_fits:
  assumes "popupPosition \<in> {''auto'', ''top'', ''bottom'', ''left'', ''right''}"
    and "rect_width popupRect + 20 \<le> viewportWidth"
    and "rect_height popupRect + 20 \<le> viewportHeight"
  shows "insetOk popupRect viewportWidth viewportHeight 0 0
           (positionPopup popupPosition triggerRect popupRect viewportWidth viewportHeight 0 0)"
proof -
  define position where "position =
    (if popupPosition = ''auto''
     then autoPosition triggerRect popupRect viewportWidth viewportHeight else popupPosition)"
  have known: "position \<in> {''top'', ''bottom'', ''left'', ''right''}"
    using assms(1) by (auto simp: position_def autoPosition_def Let_def)
  then obtain t0 l0 where off: "offsets position triggerRect popupRect 0 0 = (Some t0, Some l0)"
    by (auto simp: offsets_def)
  have pp: "positionPopup popupPosition triggerRect popupRect viewportWidth viewportHeight 0 0
      = \<lparr> p_position = position,
          p_top = Some (clampTop popupRect viewportHeight 0 t0),
          p_left = Some (clampLeft popupRect viewportWidth l0) \<rparr>"
    using off by (simp add: positionPopup_def position_def Let_def)
  have l: "10 \<le> clampLeft popupRect viewportWidth l0"
      "clampLeft popupRect viewportWidth l0 + rect_width popupRect \<le> viewportWidth - 10"
    using assms(2) by (auto simp: clampLeft_def Let_def)
  have t: "10 \<le> clampTop popupRect viewportHeight 0 t0"
      "clampTop popupRect viewportHeight 0 t0 + rect_height popupRect \<le> viewportHeight - 10"
    using assms(3) by (auto simp: clampTop_def Let_def)
  show ?thesis
    using l t by (simp add: pp insetOk_def)
qed

section \<open>Theorems: the term index\<close>

lemma insertSorted_insort_key:
  "insertSorted compareTerms x ys = insort_key (\<lambda>t. - int (length (term_word t))) x ys"
  by (induction ys) (auto simp: compareTerms_def)

lemma sortStable_sort_key:
  "sortStable compareTerms xs = sort_key (\<lambda>t. - int (length (term_word t))) xs"
  by (induction xs) (simp_all add: sortStable_def insertSorted_insort_key)

lemma sorted_neg_length:
  "sorted (map (\<lambda>t. - int (length (term_word t))) xs)
     = sorted_wrt (\<lambda>a b. length (term_word a) \<ge> length (term_word b)) xs"
  by (induction xs) auto

lemma indexTerms_props:
  "mset (indexTerms ts) = mset (filter isEnabled ts)"
  "sorted_wrt (\<lambda>a b. length (term_word a) \<ge> length (term_word b)) (indexTerms ts)"
  "filter (\<lambda>t. length (term_word t) = k) (indexTerms ts)
     = filter (\<lambda>t. length (term_word t) = k) (filter isEnabled ts)"
proof -
  let ?f = "\<lambda>t. - int (length (term_word t))"
  have eq: "indexTerms ts = sort_key ?f (filter isEnabled ts)"
    by (simp add: indexTerms_def sortStable_sort_key)
  show "mset (indexTerms ts) = mset (filter isEnabled ts)"
    by (simp add: eq)
  have "sorted (map ?f (indexTerms ts))"
    unfolding eq by (rule sorted_sort_key)
  then show "sorted_wrt (\<lambda>a b. length (term_word a) \<ge> length (term_word b)) (indexTerms ts)"
    by (simp add: sorted_neg_length)
  have "filter (\<lambda>t. ?f t = - int k) (sort_key ?f (filter isEnabled ts))
      = filter (\<lambda>t. ?f t = - int k) (filter isEnabled ts)"
    by (rule sort_key_stable)
  then show "filter (\<lambda>t. length (term_word t) = k) (indexTerms ts)
     = filter (\<lambda>t. length (term_word t) = k) (filter isEnabled ts)"
    by (simp add: eq)
qed

text \<open>
  C7. After loadTerms or updateTerms the stored list holds exactly the terms whose
  \<open>enabled\<close> is not \<open>false\<close> (as a multiset), is ordered by descending word length,
  and for every length the terms of that length appear in their order of the input list.
\<close>

theorem index_sorted_stable:
  "(\<forall>f \<in> {loadTerms \<circ> Some, updateTerms}.
      mset (f ts) = mset (filter (\<lambda>t. term_enabled t \<noteq> Some False) ts)
    \<and> sorted_wrt (\<lambda>a b. length (term_word a) \<ge> length (term_word b)) (f ts)
    \<and> (\<forall>k. filter (\<lambda>t. length (term_word t) = k) (f ts)
           = filter (\<lambda>t. length (term_word t) = k)
               (filter (\<lambda>t. term_enabled t \<noteq> Some False) ts)))
   \<and> loadTerms None = []"
proof -
  have en: "isEnabled = (\<lambda>t. term_enabled t \<noteq> Some False)"
    by (rule ext) (simp add: isEnabled_def)
  show ?thesis
    using indexTerms_props [where ts = ts] unfolding en
    by (simp add: loadTerms_def updateTerms_def indexTerms_def sortStable_def)
qed

theorem index_sorted_stable_witness:
  "updateTerms
     [mkTerm ''1'' ''cat'' ''a'', (mkTerm ''2'' ''dog'' ''b'')\<lparr>term_enabled := Some False\<rparr>,
      mkTerm ''3'' ''category'' ''c'', mkTerm ''4'' ''cow'' ''d'']
   = [mkTerm ''3'' ''category'' ''c'', mkTerm ''1'' ''cat'' ''a'', mkTerm ''4'' ''cow'' ''d'']
   \<and> sorted_wrt (\<lambda>a b. length (term_word a) \<ge> length (term_word b))
       (updateTerms
         [mkTerm ''1'' ''cat'' ''a'', (mkTerm ''2'' ''dog'' ''b'')\<lparr>term_enabled := Some False\<rparr>,
          mkTerm ''3'' ''category'' ''c'', mkTerm ''4'' ''cow'' ''d''])"
proof -
  have "updateTerms \<in> {loadTerms \<circ> Some, updateTerms}" by simp
  then have "sorted_wrt (\<lambda>a b. length (term_word a) \<ge> length (term_word b))
       (updateTerms
         [mkTerm ''1'' ''cat'' ''a'', (mkTerm ''2'' ''dog'' ''b'')\<lparr>term_enabled := Some False\<rparr>,
          mkTerm ''3'' ''category'' ''c'', mkTerm ''4'' ''cow'' ''d''])"
    using index_sorted_stable by blast
  moreover have "updateTerms
     [mkTerm ''1'' ''cat'' ''a'', (mkTerm ''2'' ''dog'' ''b'')\<lparr>term_enabled := Some False\<rparr>,
      mkTerm ''3'' ''category'' ''c'', mkTerm ''4'' ''cow'' ''d'']
   = [mkTerm ''3'' ''category'' ''c'', mkTerm ''1'' ''cat'' ''a'', mkTerm ''4'' ''cow'' ''d'']"
    by (simp add: updateTerms_def indexTerms_def sortStable_def isEnabled_def compareTerms_def
        mkTerm_def)
  ultimately show ?thesis by simp
qed

section \<open>Theorems: popup lifecycle\<close>












section \<open>Theorems: term matching\<close>

lemma regexSpecial_backslash: "regexSpecial backslash"
  by (simp add: regexSpecial_def)

lemma regexSpecial_not_b: "regexSpecial c \<Longrightarrow> c \<noteq> CHR ''b''"
  by (auto simp: regexSpecial_def backslash_def)

lemma compile_escapeRegExp:
  "compile (escapeRegExp w @ rest) = map_option ((@) (map Lit w)) (compile rest)"
proof (induction w)
  case Nil
  show ?case by (simp add: escapeRegExp_def option.map_ident)
next
  case (Cons c w)
  have step: "escapeRegExp (c # w) = (if regexSpecial c then [backslash, c] else [c]) @ escapeRegExp w"
    by (simp add: escapeRegExp_def)
  show ?case
  proof (cases "regexSpecial c")
    case True
    then show ?thesis
      using Cons.IH regexSpecial_not_b [OF True]
      by (simp add: step option.map_comp comp_def)
  next
    case False
    then have "c \<noteq> backslash" using regexSpecial_backslash by auto
    then show ?thesis
      using Cons.IH False by (simp add: step option.map_comp comp_def)
  qed
qed

lemma compile_boundary: "compile [backslash, CHR ''b''] = Some [Boundary]"
  by simp

lemma compile_termPattern:
  "compile (termPattern t) = Some (Boundary # map Lit (term_word t) @ [Boundary])"
proof -
  have "compile (termPattern t)
      = map_option (Cons Boundary) (compile (escapeRegExp (term_word t) @ [backslash, CHR ''b'']))"
    by (simp add: termPattern_def)
  also have "\<dots> = Some (Boundary # map Lit (term_word t) @ [Boundary])"
    by (simp only: compile_escapeRegExp compile_boundary option.map list.map append.simps)
  finally show ?thesis .
qed

text \<open>The loop never leaves the modelled pattern syntax: every term's pattern is read.\<close>

lemma applyTerm_total: "\<exists>r. applyTerm t hc = Some r"
  by (auto simp: applyTerm_def compile_termPattern)

lemma substituteTerms_total: "\<exists>r. substituteTerms ts hc = Some r"
proof (induction ts arbitrary: hc)
  case Nil
  show ?case by simp
next
  case (Cons t ts)
  obtain r where "applyTerm t hc = Some r" using applyTerm_total by blast
  then show ?case using Cons.IH [of r] by simp
qed

lemma matchAtoms_empty_word:
  "matchAtoms ignoreCase [Boundary, Boundary] prev rest = (if isBoundary prev rest then Some 0 else None)"
  by simp

lemma pieces_empty_word_rec:
  "pieces ignoreCase [Boundary, Boundary] 0 prev rest =
     concat (map (\<lambda>i. (if isBoundary (if i = 0 then prev else Some (rest ! (i - 1))) (drop i rest)
                         then [Matched []] else [])
                     @ (if i < length rest then [Unmatched (rest ! i)] else []))
               [0..<Suc (length rest)])"
proof (induction rest arbitrary: prev)
  case Nil
  show ?case by simp
next
  case (Cons c cs)
  have upt: "[0..<Suc (length (c # cs))] = 0 # map Suc [0..<Suc (length cs)]"
    by (metis length_Cons map_Suc_upt upt_conv_Cons zero_less_Suc)
  have tail: "map (\<lambda>i. (if isBoundary (if Suc i = 0 then prev else Some ((c # cs) ! (Suc i - 1)))
                              (drop (Suc i) (c # cs))
                         then [Matched []] else [])
                     @ (if Suc i < length (c # cs) then [Unmatched ((c # cs) ! Suc i)] else []))
               [0..<Suc (length cs)]
      = map (\<lambda>i. (if isBoundary (if i = 0 then Some c else Some (cs ! (i - 1))) (drop i cs)
                         then [Matched []] else [])
                     @ (if i < length cs then [Unmatched (cs ! i)] else []))
               [0..<Suc (length cs)]"
    by (rule map_cong [OF refl]) (auto simp: nth_Cons split: nat.splits)
  show ?case
    unfolding upt
    by (simp only: list.map map_map comp_def tail concat.simps Cons.IH [symmetric])
       (simp del: upt_Suc)
qed

lemma matched_empty_word:
  "list_ex isMatched (pieces ignoreCase [Boundary, Boundary] 0 prev rest)
     = (wordBefore prev \<or> (\<exists>c \<in> set rest. isWordChar c))"
proof (induction rest arbitrary: prev)
  case Nil
  show ?case by (simp add: isBoundary_def wordAfter_def isMatched_def)
next
  case (Cons c cs)
  show ?case
    using Cons.IH [of "Some c"]
    by (auto simp: isBoundary_def wordAfter_def wordBefore_def isMatched_def)
qed

text \<open>
  The pieces cut the text and lose nothing: with the matches put back as they are, the
  text is the one that was scanned.
\<close>

lemma matchAtoms_le: "matchAtoms ignoreCase as prev rest = Some n \<Longrightarrow> n \<le> length rest"
  by (induction ignoreCase as prev rest arbitrary: n rule: matchAtoms.induct)
     (auto split: if_splits)

lemma pieces_keep_text:
  "skip \<le> length rest \<Longrightarrow>
     concat (map (renderPiece (\<lambda>m. m)) (pieces ignoreCase as skip prev rest)) = drop skip rest"
proof (induction rest arbitrary: skip prev)
  case Nil
  then show ?case by (simp add: renderPiece_def)
next
  case (Cons c cs)
  show ?case
  proof (cases "skip > 0")
    case True
    then obtain k where k: "skip = Suc k" by (cases skip) auto
    then show ?thesis using Cons.IH [of k "Some c"] Cons.prems by simp
  next
    case False
    show ?thesis
    proof (cases "matchAtoms ignoreCase as prev (c # cs)")
      case None
      then show ?thesis using False Cons.IH [of 0 "Some c"] by (simp add: renderPiece_def)
    next
      case (Some n)
      show ?thesis
      proof (cases n)
        case 0
        then show ?thesis
          using False Some Cons.IH [of 0 "Some c"] by (simp add: renderPiece_def)
      next
        case (Suc k)
        have "k \<le> length cs" using matchAtoms_le [OF Some] Suc by simp
        then show ?thesis
          using False Some Suc Cons.IH [of k "Some c"]
          by (simp add: renderPiece_def)
      qed
    qed
  qed
qed

lemma regexReplace_identity: "regexReplace ignoreCase as (\<lambda>m. m) content = content"
  using pieces_keep_text [of 0 content ignoreCase as None] by (simp add: regexReplace_def)

lemmas matching_eval =
  applyTerm_def termPattern_def escapeRegExp_def regexSpecial_def backslash_def mkTerm_def
  ignoreCaseFlag_def regexTest_def regexReplace_def isBoundary_def wordBefore_def wordAfter_def
  isWordChar_def charEq_def canonicalize_def placeholder_def isMatched_def renderPiece_def

text \<open>
  C1 fails on the code. The glossary holds "data" (id 2) and "database" (id 1); the index
  puts "database" first. On the text "A database stores data" the first term wraps
  "database" in a placeholder. The second term then scans the substituted text, and its
  first match is the "data" of the attribute name \<open>data-term-id\<close> inside the placeholder
  tag of the first term: a match of the later, shorter term that starts inside the span
  already claimed by the longer one.
\<close>

theorem shorter_term_matches_inside_placeholder:
  \<open>substituteTerms
      (loadTerms (Some [mkTerm ''2'' ''data'' ''facts'', mkTerm ''1'' ''database'' ''a store'']))
      (False, ''A database stores data'')
    = Some (True,
        ''A <span class="glossary-term-placeholder" '' @
          ''<span class="glossary-term-placeholder" data-term-id="2">data</span>'' @
          ''-term-id="1">database</span> stores '' @
          ''<span class="glossary-term-placeholder" data-term-id="2">data</span>'')\<close>
  by (simp add: matching_eval loadTerms_def indexTerms_def sortStable_def isEnabled_def
      compareTerms_def)

text \<open>
  The same happens in the text of a placeholder: with "machine learning" before "machine",
  the second term matches the "machine" that the first term has wrapped.
\<close>

lemma nested_placeholder_example:
  \<open>substituteTerms
      [mkTerm ''1'' ''machine learning'' ''d1'', mkTerm ''2'' ''machine'' ''d2'']
      (False, ''machine learning'')
    = Some (True,
        ''<span class="glossary-term-placeholder" data-term-id="1">'' @
          ''<span class="glossary-term-placeholder" data-term-id="2">machine</span>'' @
          '' learning</span>'')\<close>
  by (simp add: matching_eval)

text \<open>
  C6 as stated fails: the pattern of a term with the empty word is \<open>\b\b\<close>, which matches
  the empty string at a word boundary. On the text "hi" it matches at both ends.
\<close>

theorem empty_word_counterexample:
  \<open>applyTerm (mkTerm ''7'' '''' ''d'') (False, ''hi'')
    = Some (True,
        ''<span class="glossary-term-placeholder" data-term-id="7"></span>hi'' @
        ''<span class="glossary-term-placeholder" data-term-id="7"></span>'')\<close>
  by (simp add: matching_eval)

text \<open>
  C6, amended. A term whose word is the empty string raises no error: its pattern is
  read as two boundary assertions. It matches the empty string at every index of the
  working text that is a word boundary and nowhere else, the characters of the text are
  all kept, and so the term fires (sets hasMatches and inserts empty placeholders) exactly
  when the working text contains a word character; otherwise the pass goes on unchanged.
\<close>

theorem empty_word_matches_every_boundary:
  assumes "term_word t = []"
  shows "compile (termPattern t) = Some [Boundary, Boundary]
    \<and> pieces (ignoreCaseFlag t) [Boundary, Boundary] 0 None content
        = concat (map (\<lambda>i. (if boundaryAt content i then [Matched []] else [])
                           @ (if i < length content then [Unmatched (content ! i)] else []))
                   [0..<Suc (length content)])
    \<and> applyTerm t (hasMatches, content)
        = Some (if list_ex isWordChar content
                then (True, regexReplace (ignoreCaseFlag t) [Boundary, Boundary] (placeholder t) content)
                else (hasMatches, content))"
proof -
  have c: "compile (termPattern t) = Some [Boundary, Boundary]"
    using assms by (simp add: compile_termPattern)
  have t: "regexTest (ignoreCaseFlag t) [Boundary, Boundary] content = list_ex isWordChar content"
    unfolding regexTest_def matched_empty_word by (simp add: wordBefore_def list_ex_iff)
  have p: "pieces (ignoreCaseFlag t) [Boundary, Boundary] 0 None content
        = concat (map (\<lambda>i. (if boundaryAt content i then [Matched []] else [])
                           @ (if i < length content then [Unmatched (content ! i)] else []))
                   [0..<Suc (length content)])"
    unfolding boundaryAt_def by (rule pieces_empty_word_rec)
  have a: "applyTerm t (hasMatches, content)
        = Some (if list_ex isWordChar content
                then (True, regexReplace (ignoreCaseFlag t) [Boundary, Boundary] (placeholder t) content)
                else (hasMatches, content))"
    by (simp add: applyTerm_def c t)
  show ?thesis
    by (intro conjI) (rule c p a)+
qed

theorem empty_word_matches_every_boundary_witness:
  \<open>term_word (mkTerm ''7'' '''' ''d'') = []
   \<and> applyTerm (mkTerm ''7'' '''' ''d'') (False, ''a,'')
      = Some (True,
          ''<span class="glossary-term-placeholder" data-term-id="7"></span>a'' @
          ''<span class="glossary-term-placeholder" data-term-id="7"></span>,'')
   \<and> applyTerm (mkTerm ''7'' '''' ''d'') (False, '', '') = Some (False, '', '')\<close>
proof -
  have e: "term_word (mkTerm ''7'' '''' ''d'') = []" by (simp add: mkTerm_def)
  note th = empty_word_matches_every_boundary [OF e]
  have "applyTerm (mkTerm ''7'' '''' ''d'') (False, ''a,'')
      = Some (True, regexReplace (ignoreCaseFlag (mkTerm ''7'' '''' ''d'')) [Boundary, Boundary]
                      (placeholder (mkTerm ''7'' '''' ''d'')) ''a,'')"
    using th [of "''a,''" False] by (simp add: isWordChar_def)
  moreover have "applyTerm (mkTerm ''7'' '''' ''d'') (False, '', '') = Some (False, '', '')"
    using th [of "'', ''" False] by (simp add: isWordChar_def)
  ultimately show ?thesis
    using e by (simp add: matching_eval)
qed

section \<open>Theorems: scanning and destroy\<close>

lemmas parse_eval =
  parseFragment_def isAsciiAlpha_def asciiLower_def unmodelledChar_def isHtmlSpace_def addAttr_def

lemmas scan_eval =
  processExistingContent_def textNodes_def acceptNode_def shouldExcludeElement_def
  selectorHits_def hasClass_def classList_def trim_def isJsSpace_def processTextNode_def
  isTextWithId_def createGlossaryElement_def newState_def newOptions_def noOptions_def
  defaultExcludeSelectors_def loadTerms_def indexTerms_def sortStable_def isEnabled_def
  compareTerms_def destroy_def isMarker_def

subsection \<open>Scanning twice\<close>

lemma acceptNode_candidate:
  "acceptNode st chain i s
     = (i \<notin> this_processedNodes st \<and> candidate (opt_excludeSelectors (this_options st)) chain i s)"
  by (simp add: acceptNode_def candidate_def)

lemma walk_filter:
  "walk (\<lambda>chain i s. i \<notin> P \<and> cand chain i s) chain n
     = filter (\<lambda>i. i \<notin> P) (walk cand chain n)"
  by (induction cand chain n rule: walk.induct) (simp_all add: filter_concat comp_def cong: map_cong)

lemma walk_acceptNode:
  "walk (acceptNode st) chain n
     = filter (\<lambda>i. i \<notin> this_processedNodes st)
         (walk (candidate (opt_excludeSelectors (this_options st))) chain n)"
proof -
  have "acceptNode st
      = (\<lambda>chain i s. i \<notin> this_processedNodes st
            \<and> candidate (opt_excludeSelectors (this_options st)) chain i s)"
    by (intro ext) (rule acceptNode_candidate)
  then show ?thesis by (simp only: walk_filter)
qed

lemma hit_Cons: "hit sels chain \<Longrightarrow> hit sels (e # chain)"
  by (auto simp: hit_def selectorHits_def list_ex_iff)

lemma hit_excluded: "hit sels chain \<Longrightarrow> shouldExcludeElement sels chain"
  by (simp add: hit_def shouldExcludeElement_def)

lemma walk_hit: "hit sels chain \<Longrightarrow> walk (candidate sels) chain n = []"
proof (induction "candidate sels" chain n rule: walk.induct)
  case (1 chain i s)
  then show ?case by (simp add: candidate_def hit_excluded)
next
  case (2 chain tag as kids)
  have "\<And>k. k \<in> set kids \<Longrightarrow> walk (candidate sels) ((tag, as) # chain) k = []"
    using 2 by (simp add: hit_Cons)
  then show ?case by simp
qed

lemma getAttribute_setAttribute: "getAttribute name (setAttribute name val as) = Some val"
  by (induction as) auto

lemma hit_processed:
  assumes "SelAttr ''data-glossary-processed'' \<in> set sels"
  shows "hit sels ((tag, setAttribute ''data-glossary-processed'' ''true'' as) # chain)"
  using assms
  by (auto simp: hit_def selectorHits_def list_ex_iff getAttribute_setAttribute
      intro!: bexI [of _ "SelAttr ''data-glossary-processed''"])

lemma walk_replaceChild:
  assumes "SelAttr ''data-glossary-processed'' \<in> set sels"
  shows "set (walk (candidate sels) chain (replaceChild tid frag n))
           \<subseteq> set (walk (candidate sels) chain n)"
proof (induction n arbitrary: chain)
  case (Text i s)
  show ?case by simp
next
  case (Elem tag as kids)
  show ?case
  proof (cases "list_ex (isTextWithId tid) kids")
    case True
    have "walk (candidate sels) ((tag, setAttribute ''data-glossary-processed'' ''true'' as) # chain) k = []"
      for k
      by (rule walk_hit [OF hit_processed [OF assms]])
    then show ?thesis using True by simp
  next
    case False
    then show ?thesis using Elem.IH by (auto simp: comp_def)
  qed
qed

lemma processTextNode_effect:
  assumes "processTextNode st tid = Some st'"
    and "SelAttr ''data-glossary-processed'' \<in> set (opt_excludeSelectors (this_options st))"
  shows "this_options st' = this_options st \<and> doc_above st' = doc_above st
    \<and> this_processedNodes st' = insert tid (this_processedNodes st)
    \<and> set (walk (candidate (opt_excludeSelectors (this_options st))) chain (doc_body st'))
         \<subseteq> set (walk (candidate (opt_excludeSelectors (this_options st))) chain (doc_body st))"
proof (cases "tid \<in> this_processedNodes st")
  case True
  then have "st' = st" using assms(1) by (simp add: processTextNode_def)
  then show ?thesis using True by (simp add: insert_absorb)
next
  case False
  from assms(1) False consider
      (plain) "st' = st\<lparr> this_processedNodes := insert tid (this_processedNodes st) \<rparr>"
    | (rewritten) frag n where
        "st' = st\<lparr> doc_body := replaceChild tid frag (doc_body st), doc_nextId := n,
                    this_processedNodes := insert tid (this_processedNodes st) \<rparr>"
    by (auto simp: processTextNode_def split: option.splits prod.splits if_splits)
  then show ?thesis
  proof cases
    case plain
    then show ?thesis by simp
  next
    case rewritten
    then show ?thesis using walk_replaceChild [OF assms(2)] by simp
  qed
qed

lemma processAll_effect:
  assumes "processAll st tids = Some st'"
    and "SelAttr ''data-glossary-processed'' \<in> set (opt_excludeSelectors (this_options st))"
  shows "this_options st' = this_options st \<and> doc_above st' = doc_above st
    \<and> this_processedNodes st' = this_processedNodes st \<union> set tids
    \<and> set (walk (candidate (opt_excludeSelectors (this_options st))) chain (doc_body st'))
         \<subseteq> set (walk (candidate (opt_excludeSelectors (this_options st))) chain (doc_body st))"
  using assms
proof (induction tids arbitrary: st)
  case Nil
  then show ?case by simp
next
  case (Cons tid tids)
  from Cons.prems(1) obtain st1 where
    one: "processTextNode st tid = Some st1" and rest: "processAll st1 tids = Some st'"
    by (auto split: option.splits)
  note e1 = processTextNode_effect [OF one Cons.prems(2), of chain]
  have sel1: "SelAttr ''data-glossary-processed'' \<in> set (opt_excludeSelectors (this_options st1))"
    using e1 Cons.prems(2) by simp
  note e2 = Cons.IH [OF rest sel1]
  show ?case using e1 e2 by auto
qed

text \<open>
  C4 fails on the code. A rewrite puts new text nodes into the document, which are not in
  \<open>processedNodes\<close>; what keeps the next scan away from them is the attribute
  \<open>data-glossary-processed\<close> that processTextNode sets on the parent, and it does so only
  through the list \<open>excludeSelectors\<close>, which the caller's option replaces as a whole.
  With \<open>excludeSelectors: ['script']\<close>, the term "API" and the paragraph "Use the API",
  the first scan creates one marker and the second scan of the unchanged document wraps
  the text inside that marker again: two markers.
\<close>

theorem rescan_creates_second_marker:
  "map_option (countMarkers \<circ> doc_body)
     (processExistingContent
        (newState (noOptions\<lparr>u_excludeSelectors := Some [SelTag ''script'']\<rparr>)
           [mkTerm ''1'' ''API'' ''d'']
           (Elem ''body'' [] [Elem ''p'' [] [Text 1 ''Use the API'']]) 2)) = Some 1
   \<and> map_option (countMarkers \<circ> doc_body)
       (Option.bind
          (processExistingContent
             (newState (noOptions\<lparr>u_excludeSelectors := Some [SelTag ''script'']\<rparr>)
                [mkTerm ''1'' ''API'' ''d'']
                (Elem ''body'' [] [Elem ''p'' [] [Text 1 ''Use the API'']]) 2))
          processExistingContent) = Some 2"
  by (simp add: matching_eval parse_eval scan_eval)

text \<open>
  With a list that contains \<open>[data-glossary-processed]\<close>, as the default list does, the
  mark on the parent works: after a scan the walker accepts no text node, and a second
  scan returns the state as it is.
\<close>

lemma rescan_changes_nothing:
  assumes "SelAttr ''data-glossary-processed'' \<in> set (opt_excludeSelectors (this_options st))"
    and "processExistingContent st = Some st'"
  shows "textNodes st' = [] \<and> processExistingContent st' = Some st'"
proof -
  let ?sels = "opt_excludeSelectors (this_options st)"
  note eff = processAll_effect [OF assms(2) [unfolded processExistingContent_def] assms(1),
      of "doc_above st"]
  have "textNodes st' = []"
  proof (cases "doc_body st")
    case (Text i s)
    then have "textNodes st = []" by (simp add: textNodes_def)
    then have "st' = st" using assms(2) by (simp add: processExistingContent_def)
    then show ?thesis using Text by (simp add: textNodes_def)
  next
    case (Elem tag as kids)
    then have "textNodes st = walk (acceptNode st) (doc_above st) (doc_body st)"
      unfolding textNodes_def by (simp only: node.case)
    then have tn: "textNodes st
        = filter (\<lambda>i. i \<notin> this_processedNodes st) (walk (candidate ?sels) (doc_above st) (doc_body st))"
      by (simp only: walk_acceptNode)
    have "set (walk (candidate ?sels) (doc_above st) (doc_body st))
        \<subseteq> this_processedNodes st \<union> set (textNodes st)"
      by (auto simp: tn)
    then have sub: "set (walk (candidate ?sels) (doc_above st') (doc_body st'))
        \<subseteq> this_processedNodes st'"
      using eff by auto
    have "walk (acceptNode st') (doc_above st') (doc_body st') = []"
      using sub eff by (auto simp: walk_acceptNode filter_empty_conv)
    then show ?thesis by (cases "doc_body st'") (simp_all add: textNodes_def del: walk.simps)
  qed
  then show ?thesis by (simp add: processExistingContent_def)
qed

lemma rescan_default_example:
  "map_option (countMarkers \<circ> doc_body)
       (processExistingContent
          (newState noOptions [mkTerm ''1'' ''API'' ''d'']
             (Elem ''body'' [] [Elem ''p'' [] [Text 1 ''Use the API'']]) 2)) = Some 1
   \<and> map_option (countMarkers \<circ> doc_body)
       (Option.bind
          (processExistingContent
             (newState noOptions [mkTerm ''1'' ''API'' ''d'']
                (Elem ''body'' [] [Elem ''p'' [] [Text 1 ''Use the API'']]) 2))
          processExistingContent) = Some 1"
proof -
  let ?st = "newState noOptions [mkTerm ''1'' ''API'' ''d'']
             (Elem ''body'' [] [Elem ''p'' [] [Text 1 ''Use the API'']]) 2"
  have sel: "SelAttr ''data-glossary-processed'' \<in> set (opt_excludeSelectors (this_options ?st))"
    by (simp add: newState_def newOptions_def noOptions_def defaultExcludeSelectors_def)
  obtain st' where first: "processExistingContent ?st = Some st'"
    and one: "countMarkers (doc_body st') = 1"
    by (simp add: matching_eval parse_eval scan_eval)
  have "processExistingContent st' = Some st'"
    using rescan_changes_nothing [OF sel first] by simp
  then show ?thesis using first one by simp
qed

subsection \<open>Scanning, then destroy\<close>

text \<open>
  C3 fails on the code. With the terms "data" and "database", the paragraph
  "A database stores data" is rewritten from markup in which the second term has matched
  inside the placeholder tag of the first; the parser reads that markup as a \<open>span\<close>
  around "data" followed by the rest of the broken tag as text. After destroy the
  paragraph reads \<open>A data-term-id="1">database stores data\<close>.
\<close>

theorem scan_destroy_changes_text:
  \<open>textContent (Elem ''body'' [] [Elem ''p'' [] [Text 1 ''A database stores data'']])
      = ''A database stores data''
   \<and> map_option (textContent \<circ> doc_body \<circ> destroy)
       (processExistingContent
          (newState noOptions [mkTerm ''2'' ''data'' ''facts'', mkTerm ''1'' ''database'' ''a store'']
             (Elem ''body'' [] [Elem ''p'' [] [Text 1 ''A database stores data'']]) 2))
      = Some ''A data-term-id="1">database stores data''\<close>
  by (simp add: matching_eval parse_eval scan_eval)

text \<open>On a text without markup and a single term, scan and destroy give the text back.\<close>

lemma scan_destroy_plain_example:
  "map_option (doc_body \<circ> destroy)
     (processExistingContent
        (newState noOptions [mkTerm ''1'' ''API'' ''d'']
           (Elem ''body'' [] [Elem ''p'' [] [Text 1 ''Use the API now'']]) 2))
   = Some (Elem ''body'' []
             [Elem ''p'' [(''data-glossary-processed'', ''true'')] [Text 2 ''Use the API now'']])"
  by (simp add: matching_eval parse_eval scan_eval)

text \<open>
  The text of a node is also handed to the parser as it is, so text that reads as markup
  does not come back either.
\<close>

lemma scan_destroy_markup_text:
  "map_option (textContent \<circ> doc_body \<circ> destroy)
     (processExistingContent
        (newState noOptions [mkTerm ''1'' ''API'' ''d'']
           (Elem ''body'' [] [Elem ''p'' [] [Text 1 ''a <span> API'']]) 2))
   = Some ''a  API''"
  by (simp add: matching_eval parse_eval scan_eval)

subsection \<open>The option caseSensitive\<close>

text \<open>
  C5 fails on the code. The instance is configured with \<open>caseSensitive: true\<close>, and the
  term "API" has no \<open>caseSensitive\<close> field. The loop of processTextNode takes its flags
  from the term alone, so the text "use the api" is matched without regard to case and a
  marker is created.
\<close>

theorem caseSensitive_option_ignored:
  \<open>opt_caseSensitive (this_options
      (newState (noOptions\<lparr>u_caseSensitive := Some True\<rparr>) [mkTerm ''1'' ''API'' ''d'']
         (Elem ''body'' [] [Elem ''p'' [] [Text 1 ''use the api'']]) 2))
   \<and> term_caseSensitive (mkTerm ''1'' ''API'' ''d'') = None
   \<and> substituteTerms
        (this_terms
          (newState (noOptions\<lparr>u_caseSensitive := Some True\<rparr>) [mkTerm ''1'' ''API'' ''d'']
             (Elem ''body'' [] [Elem ''p'' [] [Text 1 ''use the api'']]) 2))
        (False, ''use the api'')
      = Some (True, ''use the <span class="glossary-term-placeholder" data-term-id="1">api</span>'')
   \<and> map_option (countMarkers \<circ> doc_body)
       (processExistingContent
          (newState (noOptions\<lparr>u_caseSensitive := Some True\<rparr>) [mkTerm ''1'' ''API'' ''d'']
             (Elem ''body'' [] [Elem ''p'' [] [Text 1 ''use the api'']]) 2))
      = Some 1\<close>
  by (simp add: matching_eval parse_eval scan_eval)

section \<open>Theorems: the markup of a popup\<close>

lemma escapeHtml_no_angle: "CHR ''<'' \<notin> set (escapeHtml s) \<and> CHR ''>'' \<notin> set (escapeHtml s)"
  by (induction s) (auto simp: escapeHtml_def)

lemma escapeHtml_keeps_quote: "escapeHtml (CHR 0x22 # s) = CHR 0x22 # escapeHtml s"
  by (simp add: escapeHtml_def)

text \<open>
  C10 fails on the code. \<open>escapeHtml\<close> leaves the double quote as it is, and the image URL
  is put inside a double-quoted attribute. For the image URL
  \<open>x" onerror="alert(1)\<close> the markup has the attribute \<open>src="x"\<close> followed by a second
  attribute \<open>onerror="alert(1)"\<close>: the URL is not rendered as the literal value.
\<close>

theorem image_url_breaks_out_of_attribute:
  \<open>snd (createPopup ((mkTerm ''1'' ''W'' ''D'')\<lparr>term_image := Some ''x" onerror="alert(1)''\<rparr>))
     = popupHead (mkTerm ''1'' ''W'' ''D'') @
       ''<img src="x" onerror="alert(1)" alt="W" class="glossary-popup-image" loading="lazy">''\<close>
  by (simp add: createPopup_def popupHead_def popupImage_def popupLink_def escapeHtml_def
      mkTerm_def)

end
